theory Spec2Isabelle
  imports Complex_Main
begin

section \<open>CloudFS core: a shallow embedding\<close>

text \<open>
  The core of CloudFS keeps its state in an SQLite index and talks to the world through
  the file system and through \<^verbatim>\<open>rclone\<close>. The embedding follows the Go sources:
  \<^item> a table is the list of its rows, a row is a record whose fields are the columns
    (prefixed by the table, since several tables share column names);
  \<^item> \<^verbatim>\<open>sql.NullInt64\<close> and \<^verbatim>\<open>sql.NullString\<close> are \<open>option\<close>s
    (\<open>None\<close> is \<^verbatim>\<open>Valid = false\<close>);
  \<^item> \<^verbatim>\<open>int64\<close> values are \<open>int\<close>s; instants are nanoseconds since the epoch;
  \<^item> what a call into the store, the file system or \<^verbatim>\<open>rclone\<close> answers is an
    argument of the function that makes the call, so that every error branch of the source
    is a branch of the model.
\<close>

subsection \<open>Health score (health manager)\<close>

text \<open>
  \<^verbatim>\<open>time.Since(t)\<close> is a \<^verbatim>\<open>Duration\<close>: a signed 64-bit count of nanoseconds
  that saturates instead of wrapping.
\<close>

definition maxDuration :: int where
  "maxDuration = 2 ^ 63 - 1"

definition minDuration :: int where
  "minDuration = - (2 ^ 63)"

definition Since :: "int \<Rightarrow> int \<Rightarrow> int" where
  "Since now t =
     (let d = now - t
      in if d > maxDuration then maxDuration
         else if d < minDuration then minDuration
         else d)"

definition nsPerDay :: int where
  "nsPerDay = 24 * 3600 * 1000000000"

text \<open>
  \<^verbatim>\<open>int(d.Hours() / 24)\<close>: the conversion to \<^verbatim>\<open>int\<close> truncates towards zero.
\<close>

definition truncDays :: "int \<Rightarrow> int" where
  "truncDays d = (if 0 \<le> d then d div nsPerDay else - ((- d) div nsPerDay))"



text \<open>
  The deduction for the verification age as the code makes it: 0.4 for an entry that
  was never verified, 0.3 beyond 30 days, 0.1 beyond 7 days, nothing otherwise (also
  when the stored timestamp does not parse).
\<close>

definition verification_deduction ::
  "(string \<Rightarrow> int option) \<Rightarrow> int \<Rightarrow> string option \<Rightarrow> rat" where
  "verification_deduction parse now lastVerified =
     (case lastVerified of
        None \<Rightarrow> 4 / 10
      | Some s \<Rightarrow>
          (case parse s of
             None \<Rightarrow> 0
           | Some t \<Rightarrow>
               if truncDays (Since now t) > 30 then 3 / 10
               else if truncDays (Since now t) > 7 then 1 / 10
               else 0))"

subsection \<open>The index (model.go, the schema of index.go)\<close>

datatype EntryType = EntryTypeFile | EntryTypeDirectory

datatype VersionState =
  VersionStateIncomplete | VersionStateActive | VersionStateSuperseded | VersionStateDeleted

datatype PlacementState =
  PlacementStatePending | PlacementStateUploaded | PlacementStateVerified
  | PlacementStateDegraded | PlacementStateFailed

datatype HydrationState =
  HydrationStatePlaceholder | HydrationStateHydrating | HydrationStateHydrated
  | HydrationStatePartial

datatype CacheState = CacheStateValid | CacheStateStale | CacheStatePendingEviction

datatype JournalState =
  JournalStatePending | JournalStateCommitted | JournalStateSynced | JournalStateRolledBack

record Entry =
  ent_id :: int
  ent_parent_id :: "int option"
  ent_name :: string
  ent_type :: EntryType
  ent_logical_size :: int

record Version =
  ver_id :: int
  ver_entry_id :: int
  ver_version_num :: int
  ver_content_hash :: string
  ver_size :: int
  ver_state :: VersionState

record Placement =
  pl_id :: int
  pl_version_id :: "int option"
  pl_provider_id :: string
  pl_remote_path :: string
  pl_verified_at :: "int option"
  pl_state :: PlacementState

record CacheEntry =
  ce_id :: int
  ce_entry_id :: int
  ce_version_id :: int
  ce_cache_path :: string
  ce_cached_at :: int
  ce_last_accessed :: int
  ce_pinned :: int
  ce_state :: CacheState

record Hydration =
  hy_entry_id :: int
  hy_current_state :: HydrationState
  hy_hydrated_version_id :: "int option"
  hy_hydration_progress :: int
  hy_last_hydrated :: "int option"

record TrashEntry =
  tr_id :: int
  tr_original_entry_id :: int
  tr_original_path :: string
  tr_deleted_at :: int
  tr_version_id :: "int option"
  tr_auto_purge_after :: "int option"

record JournalEntry =
  j_operation_id :: string
  j_operation_type :: string
  j_payload :: string
  j_state :: JournalState
  j_created_at :: int
  j_completed_at :: "int option"

text \<open>
  The world an operation runs in: the tables of the index, the counters behind the
  \<^verbatim>\<open>AUTOINCREMENT\<close> keys that the code reads back, the clock, the file system (a map
  from paths to contents) and the list of the calls made to the remote side so far
  (\<^verbatim>\<open>rclone\<close> commands, provider downloads).
  \<open>store_errs\<close> is what the store will answer to the coming statements, in order:
  \<open>Some e\<close> makes the next statement fail with \<open>e\<close> and change nothing, \<open>None\<close> (or
  an exhausted list) lets it run; \<open>fs_errs\<close> is the same for the calls into the file
  system. The schema declares \<^verbatim>\<open>ON DELETE CASCADE\<close>, but the
  connection never enables foreign keys, so a delete removes the named rows only.
\<close>

datatype error = Error string

record world =
  entries :: "Entry list"
  versions :: "Version list"
  placements :: "Placement list"
  cache_entries :: "CacheEntry list"
  hydration_state :: "Hydration list"
  trash :: "TrashEntry list"
  journal :: "JournalEntry list"
  trash_seq :: int
  cache_seq :: int
  store_errs :: "string option list"
  clock :: int
  files :: "string \<Rightarrow> string option"
  fs_errs :: "string option list"
  remote_calls :: "string list list"

definition store_answer :: "world \<Rightarrow> string option \<times> world" where
  "store_answer w =
     (case store_errs w of
        [] \<Rightarrow> (None, w)
      | e # es \<Rightarrow> (e, w\<lparr>store_errs := es\<rparr>))"

definition fs_answer :: "world \<Rightarrow> string option \<times> world" where
  "fs_answer w =
     (case fs_errs w of
        [] \<Rightarrow> (None, w)
      | e # es \<Rightarrow> (e, w\<lparr>fs_errs := es\<rparr>))"

definition empty_world :: world where
  "empty_world =
     \<lparr>entries = [], versions = [], placements = [], cache_entries = [],
      hydration_state = [], trash = [], journal = [], trash_seq = 0, cache_seq = 0,
      store_errs = [], clock = 0, files = (\<lambda>p. None), fs_errs = [],
      remote_calls = []\<rparr>"

subsection \<open>Journal manager (index.go)\<close>

text \<open>
  \<^verbatim>\<open>BeginOperation\<close> draws a fresh UUID; the model takes it as the argument \<open>opID\<close>.
  The column \<^verbatim>\<open>operation_id\<close> is \<^verbatim>\<open>UNIQUE\<close>: inserting a known id fails.
\<close>

definition BeginOperation ::
  "world \<Rightarrow> string \<Rightarrow> string \<Rightarrow> string \<Rightarrow> (error + string) \<times> world" where
  "BeginOperation w opID opType payload =
     (case store_answer w of
        (Some e, w1) \<Rightarrow> (Inl (Error (''failed to begin operation: '' @ e)), w1)
      | (None, w1) \<Rightarrow>
          if opID \<in> j_operation_id ` set (journal w1)
          then (Inl (Error ''failed to begin operation: UNIQUE constraint failed: journal.operation_id''), w1)
          else (Inr opID,
                w1\<lparr>journal := journal w1 @
                  [\<lparr>j_operation_id = opID, j_operation_type = opType, j_payload = payload,
                    j_state = JournalStatePending, j_created_at = clock w1,
                    j_completed_at = None\<rparr>]\<rparr>))"

definition CommitOperation :: "world \<Rightarrow> string \<Rightarrow> error option \<times> world" where
  "CommitOperation w opID =
     (case store_answer w of
        (Some e, w1) \<Rightarrow> (Some (Error (''failed to commit operation: '' @ e)), w1)
      | (None, w1) \<Rightarrow>
          (None,
           w1\<lparr>journal :=
             map (\<lambda>r. if j_operation_id r = opID
                        then r\<lparr>j_state := JournalStateCommitted\<rparr> else r)
               (journal w1)\<rparr>))"

definition SyncOperation :: "world \<Rightarrow> string \<Rightarrow> error option \<times> world" where
  "SyncOperation w opID =
     (case store_answer w of
        (Some e, w1) \<Rightarrow> (Some (Error (''failed to sync operation: '' @ e)), w1)
      | (None, w1) \<Rightarrow>
          (None,
           w1\<lparr>journal :=
             map (\<lambda>r. if j_operation_id r = opID
                        then r\<lparr>j_state := JournalStateSynced, j_completed_at := Some (clock w1)\<rparr>
                        else r)
               (journal w1)\<rparr>))"

definition RollbackOperation :: "world \<Rightarrow> string \<Rightarrow> string \<Rightarrow> error option \<times> world" where
  "RollbackOperation w opID errMsg =
     (case store_answer w of
        (Some e, w1) \<Rightarrow> (Some (Error (''failed to rollback operation: '' @ e)), w1)
      | (None, w1) \<Rightarrow>
          (None,
           w1\<lparr>journal :=
             map (\<lambda>r. if j_operation_id r = opID
                        then r\<lparr>j_state := JournalStateRolledBack,
                               j_completed_at := Some (clock w1)\<rparr>
                        else r)
               (journal w1)\<rparr>))"

text \<open>The three operations that move a journal entry on, as one step function.\<close>

datatype journal_op = Commit | Sync | Rollback string

fun journal_step :: "world \<Rightarrow> string \<Rightarrow> journal_op \<Rightarrow> error option \<times> world" where
  "journal_step w opID Commit = CommitOperation w opID"
| "journal_step w opID Sync = SyncOperation w opID"
| "journal_step w opID (Rollback errMsg) = RollbackOperation w opID errMsg"

fun target_state :: "journal_op \<Rightarrow> JournalState" where
  "target_state Commit = JournalStateCommitted"
| "target_state Sync = JournalStateSynced"
| "target_state (Rollback errMsg) = JournalStateRolledBack"

text \<open>The transitions the specification allows.\<close>

fun allowed_transition :: "JournalState \<Rightarrow> JournalState \<Rightarrow> bool" where
  "allowed_transition JournalStatePending JournalStateCommitted = True"
| "allowed_transition JournalStateCommitted JournalStateSynced = True"
| "allowed_transition JournalStatePending JournalStateRolledBack = True"
| "allowed_transition JournalStateCommitted JournalStateRolledBack = True"
| "allowed_transition s t = False"

subsection \<open>The file system and formatting helpers\<close>

text \<open>
  \<^verbatim>\<open>fmt.Sprintf("%d", n)\<close>.
\<close>

fun showNat :: "nat \<Rightarrow> string" where
  "showNat n =
     (if n < 10 then [char_of (48 + n)]
      else showNat (n div 10) @ [char_of (48 + n mod 10)])"

definition showInt :: "int \<Rightarrow> string" where
  "showInt i = (if i < 0 then CHR ''-'' # showNat (nat (- i)) else showNat (nat i))"

text \<open>
  \<^verbatim>\<open>filepath.Join\<close> and \<^verbatim>\<open>filepath.Dir\<close> on paths that are already clean: the
  normalisation of \<^verbatim>\<open>.\<close>, \<^verbatim>\<open>..\<close> and doubled separators by
  \<^verbatim>\<open>filepath.Clean\<close> is not modelled.
\<close>

definition Join :: "string \<Rightarrow> string \<Rightarrow> string" where
  "Join dir name = dir @ ''/'' @ name"

definition Dir :: "string \<Rightarrow> string" where
  "Dir p =
     (if CHR ''/'' \<notin> set p then ''.''
      else
        let d = rev (tl (dropWhile (\<lambda>c. c \<noteq> CHR ''/'') (rev p)))
        in if d = [] then ''/'' else d)"

text \<open>
  The calls into the file system. \<^verbatim>\<open>os.Stat\<close> fails exactly when there is no file
  at the path; the other calls first take the answer of \<open>fs_errs\<close> (an I/O error,
  a full disk, a permission) and fail without effect when it is an error.
\<close>

definition Stat :: "world \<Rightarrow> string \<Rightarrow> nat option" where
  "Stat w p = map_option length (files w p)"

definition MkdirAll :: "world \<Rightarrow> string \<Rightarrow> string option \<times> world" where
  "MkdirAll w p = fs_answer w"

definition Remove :: "world \<Rightarrow> string \<Rightarrow> string option \<times> world" where
  "Remove w p =
     (case fs_answer w of
        (Some e, w1) \<Rightarrow> (Some e, w1)
      | (None, w1) \<Rightarrow>
          if files w1 p = None then (Some ''no such file or directory'', w1)
          else (None, w1\<lparr>files := (files w1)(p := None)\<rparr>))"

definition RemoveAll :: "world \<Rightarrow> string \<Rightarrow> string option \<times> world" where
  "RemoveAll w d =
     (case fs_answer w of
        (Some e, w1) \<Rightarrow> (Some e, w1)
      | (None, w1) \<Rightarrow>
          (None,
           w1\<lparr>files := (\<lambda>p. if p = d \<or> take (length d + 1) p = d @ ''/'' then None
                              else files w1 p)\<rparr>))"

definition Rename :: "world \<Rightarrow> string \<Rightarrow> string \<Rightarrow> string option \<times> world" where
  "Rename w old new =
     (case fs_answer w of
        (Some e, w1) \<Rightarrow> (Some e, w1)
      | (None, w1) \<Rightarrow>
          if files w1 old = None then (Some ''no such file or directory'', w1)
          else if old = new then (None, w1)
          else (None, w1\<lparr>files := (files w1)(new := files w1 old, old := None)\<rparr>))"

text \<open>
  \<^verbatim>\<open>copyFile(src, dst)\<close> of the cache manager: open, create (which truncates), copy;
  the deferred \<^verbatim>\<open>Close\<close> calls do not report.
\<close>

definition copyFile :: "world \<Rightarrow> string \<Rightarrow> string \<Rightarrow> string option \<times> world" where
  "copyFile w src dst =
     (case fs_answer w of
        (Some e, w1) \<Rightarrow> (Some e, w1)
      | (None, w1) \<Rightarrow>
          (case files w1 src of
             None \<Rightarrow> (Some ''no such file or directory'', w1)
           | Some content \<Rightarrow>
               (case fs_answer w1 of
                  (Some e, w2) \<Rightarrow> (Some e, w2)
                | (None, w2) \<Rightarrow>
                    let w3 = w2\<lparr>files := (files w2)(dst \<mapsto> [])\<rparr>
                    in (case fs_answer w3 of
                          (Some e, w4) \<Rightarrow> (Some e, w4)
                        | (None, w4) \<Rightarrow>
                            (None,
                             w4\<lparr>files := (files w4)(dst := files w4 src)\<rparr>)))))"

subsection \<open>Cache manager (trash.go, second part)\<close>

text \<open>
  \<^verbatim>\<open>AUTOINCREMENT\<close>: the next key is one more than the largest key the table ever held.
\<close>

definition next_id :: "int \<Rightarrow> int list \<Rightarrow> int" where
  "next_id seq ids = 1 + foldr max ids seq"

definition cache_match :: "int \<Rightarrow> int \<Rightarrow> CacheEntry \<Rightarrow> bool" where
  "cache_match entryID versionID r \<longleftrightarrow> ce_entry_id r = entryID \<and> ce_version_id r = versionID"



text \<open>
  \<^verbatim>\<open>Put\<close>: move (or copy) the file into the cache and upsert the row. On a conflict the
  row keeps its key and its \<^verbatim>\<open>pinned\<close> flag. The \<^verbatim>\<open>CacheEntry\<close> returned is built
  by the code, not read back.
\<close>

definition cacheDirOf :: "string \<Rightarrow> int \<Rightarrow> int \<Rightarrow> string" where
  "cacheDirOf cacheDir entryID versionID =
     Join (Join (Join cacheDir ''entries'') (showInt entryID)) (showInt versionID)"

definition upsertCacheEntry :: "world \<Rightarrow> int \<Rightarrow> int \<Rightarrow> string \<Rightarrow> world" where
  "upsertCacheEntry w entryID versionID cachePath =
     (if \<exists>r \<in> set (cache_entries w). cache_match entryID versionID r
      then w\<lparr>cache_entries :=
             map (\<lambda>r. if cache_match entryID versionID r
                        then r\<lparr>ce_cache_path := cachePath, ce_cached_at := clock w,
                               ce_last_accessed := clock w, ce_state := CacheStateValid\<rparr>
                        else r)
               (cache_entries w)\<rparr>
      else
        let i = next_id (cache_seq w) (map ce_id (cache_entries w))
        in w\<lparr>cache_entries := cache_entries w @
               [\<lparr>ce_id = i, ce_entry_id = entryID, ce_version_id = versionID,
                 ce_cache_path = cachePath, ce_cached_at = clock w,
                 ce_last_accessed = clock w, ce_pinned = 0, ce_state = CacheStateValid\<rparr>],
             cache_seq := i\<rparr>)"

definition Put ::
  "string \<Rightarrow> world \<Rightarrow> int \<Rightarrow> int \<Rightarrow> string \<Rightarrow> (error + CacheEntry) \<times> world" where
  "Put cacheDir w entryID versionID dataPath =
     (let dir = cacheDirOf cacheDir entryID versionID in
      case MkdirAll w dir of
        (Some e, w1) \<Rightarrow> (Inl (Error (''failed to create cache entry directory: '' @ e)), w1)
      | (None, w1) \<Rightarrow>
          let cachePath = Join dir ''data'';
              moved =
                (case Rename w1 dataPath cachePath of
                   (None, w2) \<Rightarrow> (None, w2)
                 | (Some e, w2) \<Rightarrow>
                     (case copyFile w2 dataPath cachePath of
                        (Some e2, w3) \<Rightarrow> (Some e2, w3)
                      | (None, w3) \<Rightarrow> (None, snd (Remove w3 dataPath))))
          in case moved of
               (Some e, w4) \<Rightarrow> (Inl (Error (''failed to move file to cache: '' @ e)), w4)
             | (None, w4) \<Rightarrow>
                 (case store_answer w4 of
                    (Some e, w5) \<Rightarrow> (Inl (Error (''failed to create cache entry: '' @ e)), w5)
                  | (None, w5) \<Rightarrow>
                      let w6 = upsertCacheEntry w5 entryID versionID cachePath
                      in (Inr \<lparr>ce_id = cache_seq w6, ce_entry_id = entryID,
                               ce_version_id = versionID, ce_cache_path = cachePath,
                               ce_cached_at = clock w6, ce_last_accessed = clock w6,
                               ce_pinned = 0, ce_state = CacheStateValid\<rparr>, w6)))"

text \<open>
  \<^verbatim>\<open>Evict\<close>. The second query (for the path) does not report its error: a failed scan
  leaves the path empty and nothing is removed from the disk.
\<close>

definition Evict :: "world \<Rightarrow> int \<Rightarrow> int \<Rightarrow> bool \<Rightarrow> error option \<times> world" where
  "Evict w entryID versionID confirmed =
     (if \<not> confirmed then (Some (Error ''eviction requires explicit user confirmation''), w)
      else
        case store_answer w of
          (Some e, w1) \<Rightarrow> (Some (Error (''failed to check cache entry: '' @ e)), w1)
        | (None, w1) \<Rightarrow>
            (case find (cache_match entryID versionID) (cache_entries w1) of
               None \<Rightarrow> (None, w1)
             | Some r \<Rightarrow>
                 if ce_pinned r = 1
                 then (Some (Error ''cannot evict pinned entry - unpin first''), w1)
                 else
                   let (a, w2) = store_answer w1;
                       cachePath = (case a of Some e \<Rightarrow> [] | None \<Rightarrow> ce_cache_path r);
                       w3 = (if cachePath \<noteq> [] then snd (RemoveAll w2 (Dir cachePath)) else w2)
                   in case store_answer w3 of
                        (Some e, w4) \<Rightarrow>
                          (Some (Error (''failed to delete cache entry: '' @ e)), w4)
                      | (None, w4) \<Rightarrow>
                          (None,
                           w4\<lparr>cache_entries :=
                             filter (\<lambda>r. \<not> cache_match entryID versionID r)
                               (cache_entries w4)\<rparr>)))"

definition Pin :: "world \<Rightarrow> int \<Rightarrow> error option \<times> world" where
  "Pin w entryID =
     (case store_answer w of
        (Some e, w1) \<Rightarrow> (Some (Error (''failed to pin entry: '' @ e)), w1)
      | (None, w1) \<Rightarrow>
          if \<not> (\<exists>r \<in> set (cache_entries w1). ce_entry_id r = entryID)
          then (Some (Error ''entry not in cache''), w1)
          else (None,
                w1\<lparr>cache_entries :=
                  map (\<lambda>r. if ce_entry_id r = entryID then r\<lparr>ce_pinned := 1\<rparr> else r)
                    (cache_entries w1)\<rparr>))"

subsection \<open>Placeholder manager (placeholder.go)\<close>

definition PlaceholderSuffix :: string where
  "PlaceholderSuffix = ''.cloudfs''"

definition GetPlaceholderPath :: "string \<Rightarrow> Entry \<Rightarrow> string \<Rightarrow> string" where
  "GetPlaceholderPath rootDir entry parentPath =
     Join (if parentPath = [] then rootDir else parentPath) (ent_name entry @ PlaceholderSuffix)"

definition GetRealPath :: "string \<Rightarrow> Entry \<Rightarrow> string \<Rightarrow> string" where
  "GetRealPath rootDir entry parentPath =
     Join (if parentPath = [] then rootDir else parentPath) (ent_name entry)"

text \<open>
  \<^verbatim>\<open>calculateFileHash\<close>: open the file and feed it to SHA-256. The hash function (as
  a hexadecimal string) is the argument \<open>sha\<close>.
\<close>

definition calculateFileHash ::
  "(string \<Rightarrow> string) \<Rightarrow> world \<Rightarrow> string \<Rightarrow> (string + string) \<times> world" where
  "calculateFileHash sha w path =
     (case fs_answer w of
        (Some e, w1) \<Rightarrow> (Inl e, w1)
      | (None, w1) \<Rightarrow>
          (case files w1 path of
             None \<Rightarrow> (Inl ''no such file or directory'', w1)
           | Some content \<Rightarrow>
               (case fs_answer w1 of
                  (Some e, w2) \<Rightarrow> (Inl e, w2)
                | (None, w2) \<Rightarrow> (Inr (sha content), w2))))"

text \<open>
  \<^verbatim>\<open>copyFileAtomic(src, dst)\<close>: open, create, copy, sync, close. A failed copy or sync
  closes and removes the destination; a failed close leaves it. What a failed copy had
  already written is not modelled: the destination is then the empty file it was created
  as, until it is removed.
\<close>

definition copyFileAtomic :: "world \<Rightarrow> string \<Rightarrow> string \<Rightarrow> string option \<times> world" where
  "copyFileAtomic w src dst =
     (case fs_answer w of
        (Some e, w1) \<Rightarrow> (Some e, w1)
      | (None, w1) \<Rightarrow>
          if files w1 src = None then (Some ''no such file or directory'', w1)
          else
            (case fs_answer w1 of
               (Some e, w2) \<Rightarrow> (Some e, w2)
             | (None, w2) \<Rightarrow>
                 let w3 = w2\<lparr>files := (files w2)(dst \<mapsto> [])\<rparr>
                 in (case fs_answer w3 of
                       (Some e, w4) \<Rightarrow> (Some e, snd (Remove w4 dst))
                     | (None, w4) \<Rightarrow>
                         let w5 = w4\<lparr>files := (files w4)(dst := files w4 src)\<rparr>
                         in (case fs_answer w5 of
                               (Some e, w6) \<Rightarrow> (Some e, snd (Remove w6 dst))
                             | (None, w6) \<Rightarrow> fs_answer w6))))"

text \<open>
  \<^verbatim>\<open>AtomicSwap(ctx, entry, cachePath, expectedHash, parentPath)\<close>.
\<close>

definition AtomicSwap ::
  "(string \<Rightarrow> string) \<Rightarrow> string \<Rightarrow> world \<Rightarrow> Entry \<Rightarrow> string \<Rightarrow> string \<Rightarrow> string
     \<Rightarrow> error option \<times> world" where
  "AtomicSwap sha rootDir w entry cachePath expectedHash parentPath =
     (let placeholderPath = GetPlaceholderPath rootDir entry parentPath;
          realPath = GetRealPath rootDir entry parentPath
      in case Stat w cachePath of
           None \<Rightarrow> (Some (Error ''cache file not found: no such file or directory''), w)
         | Some cacheInfoSize \<Rightarrow>
             let verified =
                   (if expectedHash \<noteq> [] then
                      (case calculateFileHash sha w cachePath of
                         (Inl e, w1) \<Rightarrow> (Some (Error (''failed to verify hash: '' @ e)), w1)
                       | (Inr actualHash, w1) \<Rightarrow>
                           if actualHash \<noteq> expectedHash
                           then (Some (Error (''hash mismatch: expected '' @ expectedHash
                                              @ '', got '' @ actualHash)), w1)
                           else (None, w1))
                    else (None, w))
             in case verified of
                  (Some err, w1) \<Rightarrow> (Some err, w1)
                | (None, w1) \<Rightarrow>
                    if int cacheInfoSize \<noteq> ent_logical_size entry
                    then (Some (Error (''size mismatch: expected ''
                                       @ showInt (ent_logical_size entry) @ '', got ''
                                       @ showInt (int cacheInfoSize))), w1)
                    else
                      let tempPath = realPath @ ''.cloudfs.tmp''
                      in case copyFileAtomic w1 cachePath tempPath of
                           (Some e, w2) \<Rightarrow> (Some (Error (''failed to prepare file: '' @ e)), w2)
                         | (None, w2) \<Rightarrow>
                             (case Rename w2 tempPath realPath of
                                (Some e, w3) \<Rightarrow>
                                  (Some (Error (''failed to swap file: '' @ e)),
                                   snd (Remove w3 tempPath))
                              | (None, w3) \<Rightarrow>
                                  (None,
                                   if placeholderPath \<noteq> realPath
                                   then snd (Remove w3 placeholderPath) else w3)))"

subsection \<open>Index manager queries used by hydration (index.go)\<close>

fun msg :: "error \<Rightarrow> string" where
  "msg (Error s) = s"

text \<open>
  \<^verbatim>\<open>ORDER BY k DESC LIMIT 1\<close>: the first row, in table order, whose key no other row
  exceeds. \<open>below a b\<close> says that the key of \<open>a\<close> is below the key of \<open>b\<close>.
\<close>

fun first_max :: "('a \<Rightarrow> 'a \<Rightarrow> bool) \<Rightarrow> 'a list \<Rightarrow> 'a option" where
  "first_max below [] = None"
| "first_max below (x # xs) =
     (case first_max below xs of
        None \<Rightarrow> Some x
      | Some y \<Rightarrow> if below x y then Some y else Some x)"

definition GetEntry :: "world \<Rightarrow> int \<Rightarrow> (error + Entry option) \<times> world" where
  "GetEntry w i =
     (case store_answer w of
        (Some e, w1) \<Rightarrow> (Inl (Error (''failed to get entry: '' @ e)), w1)
      | (None, w1) \<Rightarrow> (Inr (find (\<lambda>r. ent_id r = i) (entries w1)), w1))"

definition GetActiveVersion :: "world \<Rightarrow> int \<Rightarrow> (error + Version option) \<times> world" where
  "GetActiveVersion w entryID =
     (case store_answer w of
        (Some e, w1) \<Rightarrow> (Inl (Error (''failed to get version: '' @ e)), w1)
      | (None, w1) \<Rightarrow>
          (Inr (first_max (\<lambda>a b. ver_version_num a < ver_version_num b)
                  (filter (\<lambda>v. ver_entry_id v = entryID \<and> ver_state v = VersionStateActive)
                     (versions w1))), w1))"

subsection \<open>Hydration controller (hydration.go)\<close>

record HydrationResult =
  hr_EntryID :: int
  hr_VersionID :: int
  hr_Success :: bool
  hr_Cancelled :: bool
  hr_Error :: string
  hr_BytesLoaded :: int

record HydrationOptions =
  opt_Pin :: bool
  opt_ProgressFunc :: bool

text \<open>
  What a provider's \<^verbatim>\<open>Download(remote, local, progress)\<close> does: the percentages it
  reports through the progress callback, what it leaves at the local path, and the
  result or the error it returns. The registry maps a provider id to its provider.
\<close>

record download =
  dl_progress :: "int list"
  dl_written :: "string option"
  dl_err :: "string option"
  dl_ContentHash :: string
  dl_Size :: int

type_synonym provider = "string \<Rightarrow> string \<Rightarrow> download"

text \<open>A missing row reads as the default state \<open>placeholder\<close>.\<close>

definition getHydrationState :: "world \<Rightarrow> int \<Rightarrow> (string + Hydration) \<times> world" where
  "getHydrationState w entryID =
     (case store_answer w of
        (Some e, w1) \<Rightarrow> (Inl e, w1)
      | (None, w1) \<Rightarrow>
          (case find (\<lambda>h. hy_entry_id h = entryID) (hydration_state w1) of
             None \<Rightarrow>
               (Inr \<lparr>hy_entry_id = entryID, hy_current_state = HydrationStatePlaceholder,
                     hy_hydrated_version_id = None, hy_hydration_progress = 0,
                     hy_last_hydrated = None\<rparr>, w1)
           | Some h \<Rightarrow> (Inr h, w1)))"

definition setHydrationState ::
  "world \<Rightarrow> int \<Rightarrow> HydrationState \<Rightarrow> int option \<Rightarrow> int \<Rightarrow> string option \<times> world" where
  "setHydrationState w entryID state versionID progress =
     (case store_answer w of
        (Some e, w1) \<Rightarrow> (Some e, w1)
      | (None, w1) \<Rightarrow>
          let row = \<lparr>hy_entry_id = entryID, hy_current_state = state,
                     hy_hydrated_version_id = versionID, hy_hydration_progress = progress,
                     hy_last_hydrated = Some (clock w1)\<rparr>
          in (None,
              w1\<lparr>hydration_state :=
                (if \<exists>h \<in> set (hydration_state w1). hy_entry_id h = entryID
                 then map (\<lambda>h. if hy_entry_id h = entryID then row else h) (hydration_state w1)
                 else hydration_state w1 @ [row])\<rparr>))"

text \<open>
  \<^verbatim>\<open>getPlacement\<close>: the usable placement verified last; \<^verbatim>\<open>NULL\<close> sorts below
  every timestamp.
\<close>

definition verified_before :: "Placement \<Rightarrow> Placement \<Rightarrow> bool" where
  "verified_before a b =
     (case (pl_verified_at a, pl_verified_at b) of
        (None, Some t) \<Rightarrow> True
      | (Some s, Some t) \<Rightarrow> s < t
      | _ \<Rightarrow> False)"

definition getPlacement :: "world \<Rightarrow> int \<Rightarrow> (string + Placement option) \<times> world" where
  "getPlacement w versionID =
     (case store_answer w of
        (Some e, w1) \<Rightarrow> (Inl e, w1)
      | (None, w1) \<Rightarrow>
          (Inr (first_max verified_before
                  (filter (\<lambda>p. pl_version_id p = Some versionID
                               \<and> (pl_state p = PlacementStateUploaded
                                  \<or> pl_state p = PlacementStateVerified))
                     (placements w1))), w1))"

text \<open>The progress wrapper: each report is written to the hydration state.\<close>

fun reportProgress :: "world \<Rightarrow> int \<Rightarrow> int list \<Rightarrow> world" where
  "reportProgress w entryID [] = w"
| "reportProgress w entryID (percent # ps) =
     reportProgress
       (snd (setHydrationState w entryID HydrationStateHydrating None percent)) entryID ps"

definition Download ::
  "world \<Rightarrow> string \<Rightarrow> provider \<Rightarrow> string \<Rightarrow> string \<Rightarrow> int \<Rightarrow> bool \<Rightarrow> download \<times> world" where
  "Download w providerID prov remotePath localPath entryID progress =
     (let d = prov remotePath localPath;
          w1 = w\<lparr>remote_calls :=
                 remote_calls w @ [[''download'', providerID, remotePath, localPath]]\<rparr>;
          w2 = (if progress then reportProgress w1 entryID (dl_progress d) else w1);
          w3 = (case dl_written d of
                  None \<Rightarrow> w2
                | Some content \<Rightarrow> w2\<lparr>files := (files w2)(localPath \<mapsto> content)\<rparr>)
      in (d, w3))"

text \<open>
  The failure path shared by the steps after the journal entry exists: revert the
  hydration state (only where the source does), roll the journal entry back, remove the
  temporary file (only where the source does); none of the three reports its own error.
\<close>

definition abortHydrate ::
  "world \<Rightarrow> int \<Rightarrow> string \<Rightarrow> bool \<Rightarrow> string \<Rightarrow> string option \<Rightarrow> world" where
  "abortHydrate w entryID opID revert errMsg tempPath =
     (let w1 = (if revert
                then snd (setHydrationState w entryID HydrationStatePlaceholder None 0)
                else w);
          w2 = snd (RollbackOperation w1 opID errMsg)
      in case tempPath of None \<Rightarrow> w2 | Some p \<Rightarrow> snd (Remove w2 p))"

definition hydratePayload :: "int \<Rightarrow> int \<Rightarrow> string \<Rightarrow> string \<Rightarrow> string" where
  "hydratePayload entryID versionID providerID remotePath =
     ''{\"entry_id\":'' @ showInt entryID @ '',\"provider_id\":\"'' @ providerID
       @ ''\",\"remote_path\":\"'' @ remotePath @ ''\",\"version_id\":'' @ showInt versionID
       @ ''}''"

text \<open>
  \<^verbatim>\<open>Hydrate(ctx, entryID, opts)\<close>. Arguments of the model beyond the source's: the
  hash function, the cache directory and the root directory of the managers, the value
  of \<^verbatim>\<open>HOME\<close>, the registry, and the UUID that \<^verbatim>\<open>BeginOperation\<close> will draw.
  \<^verbatim>\<open>Duration\<close> is left out of the result. The body is one function in the source;
  here it is cut into four pieces, each continuing with the next: steps 1 to 3
  (\<open>Hydrate\<close>), 4 to 7 (\<open>hydrateBegin\<close>), 8 and 9 (\<open>hydrateDownload\<close>), 10 to 14
  (\<open>hydrateSwap\<close>).
\<close>

definition wantsProgress :: "HydrationOptions option \<Rightarrow> bool" where
  "wantsProgress opts = (case opts of None \<Rightarrow> False | Some opt \<Rightarrow> opt_ProgressFunc opt)"

definition wantsPin :: "HydrationOptions option \<Rightarrow> bool" where
  "wantsPin opts = (case opts of None \<Rightarrow> False | Some opt \<Rightarrow> opt_Pin opt)"

definition hydrateSwap ::
  "(string \<Rightarrow> string) \<Rightarrow> string \<Rightarrow> string \<Rightarrow> world \<Rightarrow> Entry \<Rightarrow> Version \<Rightarrow> string \<Rightarrow> string
     \<Rightarrow> HydrationOptions option \<Rightarrow> HydrationResult \<Rightarrow> (error + HydrationResult) \<times> world" where
  "hydrateSwap sha cacheDir rootDir w8 entry version opID tempPath opts result =
     (case Put cacheDir w8 (ent_id entry) (ver_id version) tempPath of
        (Inl e, w9) \<Rightarrow>
          (Inl (Error (''failed to cache file: '' @ msg e)),
           abortHydrate w9 (ent_id entry) opID True (msg e) (Some tempPath))
      | (Inr cacheEntry, w9) \<Rightarrow>
          (case AtomicSwap sha rootDir w9 entry (ce_cache_path cacheEntry)
                  (ver_content_hash version) [] of
             (Some e, w10) \<Rightarrow>
               (Inl (Error (''failed to swap placeholder: '' @ msg e)),
                abortHydrate w10 (ent_id entry) opID True (msg e) None)
           | (None, w10) \<Rightarrow>
               let w11 = snd (setHydrationState w10 (ent_id entry) HydrationStateHydrated
                                (Some (ver_id version)) 100);
                   w12 = (if wantsPin opts then snd (Pin w11 (ent_id entry)) else w11);
                   w13 = snd (CommitOperation w12 opID);
                   w14 = snd (SyncOperation w13 opID)
               in (Inr (result\<lparr>hr_Success := True\<rparr>), w14)))"

definition hydrateDownload ::
  "(string \<Rightarrow> string) \<Rightarrow> string \<Rightarrow> string \<Rightarrow> string \<Rightarrow> world \<Rightarrow> Entry \<Rightarrow> Version
     \<Rightarrow> Placement \<Rightarrow> provider \<Rightarrow> string \<Rightarrow> HydrationOptions option \<Rightarrow> HydrationResult
     \<Rightarrow> (error + HydrationResult) \<times> world" where
  "hydrateDownload sha cacheDir rootDir home w6 entry version placement prov opID opts result =
     (let tempPath = home @ ''/.cloudfs/temp/'' @ showInt (ent_id entry) @ ''_''
                       @ showInt (ver_id version) @ ''_'' @ showInt (clock w6)
      in case MkdirAll w6 (home @ ''/.cloudfs/temp'') of
           (Some e, w7) \<Rightarrow>
             (Inl (Error (''failed to create temp dir: '' @ e)),
              abortHydrate w7 (ent_id entry) opID False e None)
         | (None, w7) \<Rightarrow>
             (case Download w7 (pl_provider_id placement) prov (pl_remote_path placement)
                     tempPath (ent_id entry) (wantsProgress opts) of
                (downloadResult, w8) \<Rightarrow>
                  (case dl_err downloadResult of
                     Some e \<Rightarrow>
                       (Inl (Error (''download failed: '' @ e)),
                        abortHydrate w8 (ent_id entry) opID True e (Some tempPath))
                   | None \<Rightarrow>
                       if dl_ContentHash downloadResult \<noteq> [] \<and> ver_content_hash version \<noteq> []
                          \<and> dl_ContentHash downloadResult \<noteq> ver_content_hash version
                       then (Inl (Error (''hash verification failed: expected ''
                                         @ ver_content_hash version @ '', got ''
                                         @ dl_ContentHash downloadResult)),
                             abortHydrate w8 (ent_id entry) opID True ''hash mismatch''
                               (Some tempPath))
                       else hydrateSwap sha cacheDir rootDir w8 entry version opID tempPath opts
                              (result\<lparr>hr_BytesLoaded := dl_Size downloadResult\<rparr>))))"

definition hydrateBegin ::
  "(string \<Rightarrow> string) \<Rightarrow> string \<Rightarrow> string \<Rightarrow> string \<Rightarrow> (string \<Rightarrow> provider option) \<Rightarrow> string
     \<Rightarrow> world \<Rightarrow> Entry \<Rightarrow> Version \<Rightarrow> HydrationOptions option \<Rightarrow> HydrationResult
     \<Rightarrow> (error + HydrationResult) \<times> world" where
  "hydrateBegin sha cacheDir rootDir home registry uuid w3 entry version opts result =
     (case getPlacement w3 (ver_id version) of
        (Inl e, w4) \<Rightarrow> (Inl (Error (''failed to get placement: '' @ e)), w4)
      | (Inr None, w4) \<Rightarrow>
          (Inl (Error (''no placement found for version: '' @ showInt (ver_id version))), w4)
      | (Inr (Some placement), w4) \<Rightarrow>
          (case registry (pl_provider_id placement) of
             None \<Rightarrow> (Inl (Error (''provider not found: '' @ pl_provider_id placement)), w4)
           | Some prov \<Rightarrow>
               (case BeginOperation w4 uuid ''hydrate''
                       (hydratePayload (ent_id entry) (ver_id version)
                          (pl_provider_id placement) (pl_remote_path placement)) of
                  (Inl e, w5) \<Rightarrow> (Inl (Error (''failed to begin journal: '' @ msg e)), w5)
                | (Inr opID, w5) \<Rightarrow>
                    (case setHydrationState w5 (ent_id entry) HydrationStateHydrating None 0 of
                       (Some e, w6) \<Rightarrow>
                         (Inl (Error (''failed to update hydration state: '' @ e)),
                          abortHydrate w6 (ent_id entry) opID False e None)
                     | (None, w6) \<Rightarrow>
                         hydrateDownload sha cacheDir rootDir home w6 entry version placement
                           prov opID opts result))))"

definition Hydrate ::
  "(string \<Rightarrow> string) \<Rightarrow> string \<Rightarrow> string \<Rightarrow> string \<Rightarrow> (string \<Rightarrow> provider option) \<Rightarrow> string
     \<Rightarrow> world \<Rightarrow> int \<Rightarrow> HydrationOptions option \<Rightarrow> (error + HydrationResult) \<times> world" where
  "Hydrate sha cacheDir rootDir home registry uuid w entryID opts =
     (let result = \<lparr>hr_EntryID = entryID, hr_VersionID = 0, hr_Success = False,
                     hr_Cancelled = False, hr_Error = [], hr_BytesLoaded = 0\<rparr>
      in case GetEntry w entryID of
           (Inl e, w1) \<Rightarrow> (Inl (Error (''failed to get entry: '' @ msg e)), w1)
         | (Inr None, w1) \<Rightarrow> (Inl (Error (''entry not found: '' @ showInt entryID)), w1)
         | (Inr (Some entry), w1) \<Rightarrow>
             if ent_type entry = EntryTypeDirectory
             then (Inl (Error ''cannot hydrate directory''), w1)
             else
               (case GetActiveVersion w1 entryID of
                  (Inl e, w2) \<Rightarrow> (Inl (Error (''failed to get version: '' @ msg e)), w2)
                | (Inr None, w2) \<Rightarrow>
                    (Inl (Error (''no active version for entry: '' @ showInt entryID)), w2)
                | (Inr (Some version), w2) \<Rightarrow>
                    (case getHydrationState w2 entryID of
                       (hydrationState, w3) \<Rightarrow>
                         if (case hydrationState of
                               Inl e \<Rightarrow> False
                             | Inr h \<Rightarrow> hy_current_state h = HydrationStateHydrated)
                         then (Inr (result\<lparr>hr_VersionID := ver_id version,
                                           hr_Success := True\<rparr>), w3)
                         else hydrateBegin sha cacheDir rootDir home registry uuid w3 entry
                                version opts (result\<lparr>hr_VersionID := ver_id version\<rparr>))))"

subsection \<open>Delete coordinator (delete_coordinator.go)\<close>

datatype DeleteSource =
  DeleteSourceTrashPurge | DeleteSourceDestroy | DeleteSourceProviderRemove

record PlacementRef =
  ref_PlacementID :: int
  ref_VersionID :: int
  ref_ProviderID :: string
  ref_RemotePath :: string
  ref_EntryName :: string
  ref_Size :: int










definition degrade :: "int set \<Rightarrow> Placement \<Rightarrow> Placement" where
  "degrade ids r = (if pl_id r \<in> ids then r\<lparr>pl_state := PlacementStateDegraded\<rparr> else r)"


text \<open>
  \<^verbatim>\<open>GetPlacementsForEntry\<close>: the placements of all versions of an entry, joined
  with the entry's name and the version's size.
\<close>

definition GetPlacementsForEntry ::
  "world \<Rightarrow> int \<Rightarrow> (string + PlacementRef list) \<times> world" where
  "GetPlacementsForEntry w entryID =
     (case store_answer w of
        (Some e, w1) \<Rightarrow> (Inl e, w1)
      | (None, w1) \<Rightarrow>
          (Inr (concat (map (\<lambda>p.
                  concat (map (\<lambda>v.
                    concat (map (\<lambda>e.
                      if pl_version_id p = Some (ver_id v) \<and> ver_entry_id v = ent_id e
                         \<and> ver_entry_id v = entryID
                      then [\<lparr>ref_PlacementID = pl_id p, ref_VersionID = ver_id v,
                             ref_ProviderID = pl_provider_id p,
                             ref_RemotePath = pl_remote_path p, ref_EntryName = ent_name e,
                             ref_Size = ver_size v\<rparr>]
                      else []) (entries w1))) (versions w1))) (placements w1))), w1))"

subsection \<open>Trash manager (trash.go, first part)\<close>

text \<open>
  The journal payloads, as \<^verbatim>\<open>json.Marshal\<close> writes a map (keys in order); the
  escaping of the strings is not modelled.
\<close>

definition trashMovePayload :: "int \<Rightarrow> string \<Rightarrow> string" where
  "trashMovePayload entryID originalPath =
     ''{\"entry_id\":'' @ showInt entryID @ '',\"original_path\":\"'' @ originalPath @ ''\"}''"

definition trashRestorePayload :: "int \<Rightarrow> int \<Rightarrow> string" where
  "trashRestorePayload trashID entryID =
     ''{\"entry_id\":'' @ showInt entryID @ '',\"trash_id\":'' @ showInt trashID @ ''}''"

definition trashPurgePayload :: "int \<Rightarrow> int \<Rightarrow> string \<Rightarrow> string" where
  "trashPurgePayload trashID entryID originalPath =
     ''{\"entry_id\":'' @ showInt entryID @ '',\"original_path\":\"'' @ originalPath
       @ ''\",\"trash_id\":'' @ showInt trashID @ ''}''"

text \<open>
  The failure path of the journaled trash operations: roll the journal entry back (the
  error of the rollback is dropped) and return the error.
\<close>

definition rollbackWith :: "world \<Rightarrow> string \<Rightarrow> string \<Rightarrow> string \<Rightarrow> error option \<times> world" where
  "rollbackWith w opID what e = (Some (Error (what @ e)), snd (RollbackOperation w opID e))"

definition completeJournal :: "world \<Rightarrow> string \<Rightarrow> world" where
  "completeJournal w opID = snd (SyncOperation (snd (CommitOperation w opID)) opID)"

text \<open>
  \<^verbatim>\<open>MoveToTrash(ctx, entryID, originalPath, autoPurgeDays)\<close>; \<open>uuid\<close> is the id that
  \<^verbatim>\<open>BeginOperation\<close> will draw. The statements are not inside a transaction: what ran
  before a failure stays. \<^verbatim>\<open>AddDate(0, 0, n)\<close> is taken as \<open>n\<close> days of 24 hours.
\<close>

definition MoveToTrash ::
  "world \<Rightarrow> string \<Rightarrow> int \<Rightarrow> string \<Rightarrow> int \<Rightarrow> error option \<times> world" where
  "MoveToTrash w uuid entryID originalPath autoPurgeDays =
     (case BeginOperation w uuid ''trash_move'' (trashMovePayload entryID originalPath) of
        (Inl e, w1) \<Rightarrow> (Some (Error (''failed to begin journal: '' @ msg e)), w1)
      | (Inr opID, w1) \<Rightarrow>
          (case store_answer w1 of
             (Some e, w2) \<Rightarrow> rollbackWith w2 opID ''failed to get version: '' e
           | (None, w2) \<Rightarrow>
               let versionID =
                     map_option ver_id
                       (find (\<lambda>v. ver_entry_id v = entryID \<and> ver_state v = VersionStateActive)
                          (versions w2));
                   autoPurgeAfter =
                     (if autoPurgeDays > 0 then Some (clock w2 + autoPurgeDays * nsPerDay)
                      else None)
               in (case store_answer w2 of
                     (Some e, w3) \<Rightarrow> rollbackWith w3 opID ''failed to add to trash: '' e
                   | (None, w3) \<Rightarrow>
                       let i = next_id (trash_seq w3) (map tr_id (trash w3));
                           w4 = w3\<lparr>trash := trash w3 @
                                  [\<lparr>tr_id = i, tr_original_entry_id = entryID,
                                    tr_original_path = originalPath,
                                    tr_deleted_at = clock w3, tr_version_id = versionID,
                                    tr_auto_purge_after = autoPurgeAfter\<rparr>],
                                trash_seq := i\<rparr>
                       in (case store_answer w4 of
                             (Some e, w5) \<Rightarrow>
                               rollbackWith w5 opID ''failed to mark versions deleted: '' e
                           | (None, w5) \<Rightarrow>
                               (None,
                                completeJournal
                                  (w5\<lparr>versions :=
                                       map (\<lambda>v. if ver_entry_id v = entryID
                                                  then v\<lparr>ver_state := VersionStateDeleted\<rparr>
                                                  else v)
                                         (versions w5)\<rparr>)
                                  opID)))))"

definition Restore :: "world \<Rightarrow> string \<Rightarrow> int \<Rightarrow> error option \<times> world" where
  "Restore w uuid trashID =
     (case store_answer w of
        (Some e, w1) \<Rightarrow> (Some (Error (''failed to get trash entry: '' @ e)), w1)
      | (None, w1) \<Rightarrow>
          (case find (\<lambda>t. tr_id t = trashID) (trash w1) of
             None \<Rightarrow> (Some (Error (''trash entry not found: '' @ showInt trashID)), w1)
           | Some t \<Rightarrow>
               (case BeginOperation w1 uuid ''trash_restore''
                       (trashRestorePayload trashID (tr_original_entry_id t)) of
                  (Inl e, w2) \<Rightarrow> (Some (Error (''failed to begin journal: '' @ msg e)), w2)
                | (Inr opID, w2) \<Rightarrow>
                    let restored =
                          (case tr_version_id t of
                             None \<Rightarrow> (None, w2)
                           | Some versionID \<Rightarrow>
                               (case store_answer w2 of
                                  (Some e, w3) \<Rightarrow> (Some e, w3)
                                | (None, w3) \<Rightarrow>
                                    (None,
                                     w3\<lparr>versions :=
                                          map (\<lambda>v. if ver_id v = versionID
                                                     then v\<lparr>ver_state := VersionStateActive\<rparr>
                                                     else v)
                                            (versions w3)\<rparr>)))
                    in (case restored of
                          (Some e, w3) \<Rightarrow> rollbackWith w3 opID ''failed to restore version: '' e
                        | (None, w3) \<Rightarrow>
                            (case store_answer w3 of
                               (Some e, w4) \<Rightarrow>
                                 rollbackWith w4 opID ''failed to remove from trash: '' e
                             | (None, w4) \<Rightarrow>
                                 (None,
                                  completeJournal
                                    (w4\<lparr>trash :=
                                         filter (\<lambda>t. tr_id t \<noteq> trashID) (trash w4)\<rparr>)
                                    opID))))))"

text \<open>
  \<^verbatim>\<open>Purge(ctx, trashID, confirmed)\<close>. A failure to delete the entry row is printed as a
  warning and the operation goes on. No call to a provider or to the delete coordinator
  is made: the source has a note where it "would happen".
\<close>

definition Purge :: "world \<Rightarrow> string \<Rightarrow> int \<Rightarrow> bool \<Rightarrow> error option \<times> world" where
  "Purge w uuid trashID confirmed =
     (if \<not> confirmed then (Some (Error ''purge requires explicit user confirmation''), w)
      else
        case store_answer w of
          (Some e, w1) \<Rightarrow> (Some (Error (''failed to get trash entry: '' @ e)), w1)
        | (None, w1) \<Rightarrow>
            (case find (\<lambda>t. tr_id t = trashID) (trash w1) of
               None \<Rightarrow> (Some (Error (''trash entry not found: '' @ showInt trashID)), w1)
             | Some t \<Rightarrow>
                 (case BeginOperation w1 uuid ''trash_purge''
                         (trashPurgePayload trashID (tr_original_entry_id t)
                            (tr_original_path t)) of
                    (Inl e, w2) \<Rightarrow> (Some (Error (''failed to begin journal: '' @ msg e)), w2)
                  | (Inr opID, w2) \<Rightarrow>
                      (case store_answer w2 of
                         (Some e, w3) \<Rightarrow> rollbackWith w3 opID ''failed to purge from trash: '' e
                       | (None, w3) \<Rightarrow>
                           let w4 = w3\<lparr>trash := filter (\<lambda>t. tr_id t \<noteq> trashID) (trash w3)\<rparr>;
                               w6 = (case store_answer w4 of
                                       (Some e, w5) \<Rightarrow> w5
                                     | (None, w5) \<Rightarrow>
                                         w5\<lparr>entries :=
                                              filter (\<lambda>e. ent_id e \<noteq> tr_original_entry_id t)
                                                (entries w5)\<rparr>)
                           in (None, completeJournal w6 opID)))))"

definition PurgeAll :: "world \<Rightarrow> string \<Rightarrow> bool \<Rightarrow> (int \<times> error option) \<times> world" where
  "PurgeAll w uuid confirmed =
     (if \<not> confirmed then ((0, Some (Error ''purge requires explicit user confirmation'')), w)
      else
        case store_answer w of
          (Some e, w1) \<Rightarrow> ((0, Some (Error (''failed to list trash: '' @ e))), w1)
        | (None, w1) \<Rightarrow>
            let trashIDs = map tr_id (trash w1)
            in (case BeginOperation w1 uuid ''trash_purge_all''
                       (''{\"count\":'' @ showInt (int (length trashIDs)) @ ''}'') of
                  (Inl e, w2) \<Rightarrow> ((0, Some (Error (''failed to begin journal: '' @ msg e))), w2)
                | (Inr opID, w2) \<Rightarrow>
                    (case store_answer w2 of
                       (Some e, w3) \<Rightarrow>
                         (case rollbackWith w3 opID ''failed to purge entries: '' e of
                            (err, w4) \<Rightarrow> ((0, err), w4))
                     | (None, w3) \<Rightarrow>
                         let w4 = w3\<lparr>entries :=
                                    filter (\<lambda>e. ent_id e \<notin> tr_original_entry_id ` set (trash w3))
                                      (entries w3)\<rparr>
                         in (case store_answer w4 of
                               (Some e, w5) \<Rightarrow>
                                 (case rollbackWith w5 opID ''failed to purge all: '' e of
                                    (err, w6) \<Rightarrow> ((0, err), w6))
                             | (None, w5) \<Rightarrow>
                                 ((int (length (trash w5)), None),
                                  completeJournal (w5\<lparr>trash := []\<rparr>) opID)))))"

text \<open>
  \<^verbatim>\<open>PurgeExpired(ctx, confirmed)\<close> deletes the expired trash rows only. The source
  compares the stored text of \<^verbatim>\<open>auto_purge_after\<close> with \<^verbatim>\<open>datetime('now')\<close>; the
  model compares the instants.
\<close>

definition expired :: "world \<Rightarrow> TrashEntry \<Rightarrow> bool" where
  "expired w t = (case tr_auto_purge_after t of None \<Rightarrow> False | Some a \<Rightarrow> a \<le> clock w)"

definition PurgeExpired :: "world \<Rightarrow> string \<Rightarrow> bool \<Rightarrow> (int \<times> error option) \<times> world" where
  "PurgeExpired w uuid confirmed =
     (if \<not> confirmed then ((0, Some (Error ''purge requires explicit user confirmation'')), w)
      else
        case BeginOperation w uuid ''trash_purge_expired'' ''{}'' of
          (Inl e, w1) \<Rightarrow> ((0, Some (Error (''failed to begin journal: '' @ msg e))), w1)
        | (Inr opID, w1) \<Rightarrow>
            (case store_answer w1 of
               (Some e, w2) \<Rightarrow>
                 (case rollbackWith w2 opID ''failed to purge expired: '' e of
                    (err, w3) \<Rightarrow> ((0, err), w3))
             | (None, w2) \<Rightarrow>
                 ((int (length (filter (expired w2) (trash w2))), None),
                  completeJournal
                    (w2\<lparr>trash := filter (\<lambda>t. \<not> expired w2 t) (trash w2)\<rparr>) opID)))"

subsection \<open>Placement planner (placement_planner.go)\<close>

datatype ProviderStatus = StatusActive | StatusInactive | StatusError


























text \<open>The ids of the active versions of an entry.\<close>

definition active_versions :: "world \<Rightarrow> int \<Rightarrow> int set" where
  "active_versions w entryID =
     set (map ver_id
            (filter (\<lambda>v. ver_entry_id v = entryID \<and> ver_state v = VersionStateActive)
               (versions w)))"

section \<open>Properties\<close>

subsection \<open>The store\<close>

lemma store_answer_empty: "store_errs w = [] \<Longrightarrow> store_answer w = (None, w)"
  by (simp add: store_answer_def)

subsection \<open>Health score\<close>

lemma verification_deduction_range:
  "0 \<le> verification_deduction parse now lv \<and> verification_deduction parse now lv \<le> 4 / 10"
  by (simp add: verification_deduction_def split: option.splits)



subsection \<open>Journal\<close>

text \<open>
  C5, as stated, makes \<open>synced\<close> terminal. \<^verbatim>\<open>CommitOperation\<close> is an unconditional
  \<^verbatim>\<open>UPDATE\<close>: on an entry that is already \<open>synced\<close> it sets the state back to
  \<open>committed\<close>.
\<close>

theorem C5_commit_after_sync_counterexample:
  "map j_state (journal (snd (CommitOperation
      (empty_world\<lparr>journal :=
         [\<lparr>j_operation_id = ''op-1'', j_operation_type = ''hydrate'', j_payload = ''{}'',
           j_state = JournalStateSynced, j_created_at = 0, j_completed_at = Some 1\<rparr>]\<rparr>)
      ''op-1''))) = [JournalStateCommitted]"
  by (simp add: CommitOperation_def store_answer_def empty_world_def)

text \<open>
  C5 (amended): \<^verbatim>\<open>CommitOperation\<close>, \<^verbatim>\<open>SyncOperation\<close> and
  \<^verbatim>\<open>RollbackOperation\<close> keep the journal's entries in place and never touch an entry
  with another operation id, nor any entry when the store reports an error; when they
  succeed, every entry with the given operation id is in state \<open>committed\<close>, \<open>synced\<close>
  and \<open>rolled_back\<close> respectively, whatever its state was. So from \<open>pending\<close> and
  \<open>committed\<close> they make the transitions of the specification, and they do not protect
  \<open>synced\<close> and \<open>rolled_back\<close> against a later operation on the same id.
\<close>

theorem C5_journal_step:
  "journal_step w opID op = (res, w') \<Longrightarrow>
   list_all2
     (\<lambda>r r'. j_operation_id r' = j_operation_id r
        \<and> j_operation_type r' = j_operation_type r
        \<and> j_payload r' = j_payload r
        \<and> j_created_at r' = j_created_at r
        \<and> (j_operation_id r \<noteq> opID \<or> res \<noteq> None \<longrightarrow> r' = r)
        \<and> (j_operation_id r = opID \<and> res = None \<longrightarrow> j_state r' = target_state op))
     (journal w) (journal w')"
  by (cases op)
    (auto simp: CommitOperation_def SyncOperation_def RollbackOperation_def store_answer_def
      list.rel_map split: list.splits option.splits prod.splits intro!: list.rel_refl)

theorem C5_journal_step_witness:
  "journal_step
     (empty_world\<lparr>journal :=
         [\<lparr>j_operation_id = ''op-1'', j_operation_type = ''hydrate'', j_payload = ''{}'',
           j_state = JournalStatePending, j_created_at = 0, j_completed_at = None\<rparr>]\<rparr>)
      ''op-1'' Commit
    = (None, empty_world\<lparr>journal :=
         [\<lparr>j_operation_id = ''op-1'', j_operation_type = ''hydrate'', j_payload = ''{}'',
           j_state = JournalStateCommitted, j_created_at = 0, j_completed_at = None\<rparr>]\<rparr>)
   \<and> allowed_transition JournalStatePending (target_state Commit)"
proof -
  let ?w = "empty_world\<lparr>journal :=
         [\<lparr>j_operation_id = ''op-1'', j_operation_type = ''hydrate'', j_payload = ''{}'',
           j_state = JournalStatePending, j_created_at = 0, j_completed_at = None\<rparr>]\<rparr>"
  let ?w' = "empty_world\<lparr>journal :=
         [\<lparr>j_operation_id = ''op-1'', j_operation_type = ''hydrate'', j_payload = ''{}'',
           j_state = JournalStateCommitted, j_created_at = 0, j_completed_at = None\<rparr>]\<rparr>"
  have h: "journal_step ?w ''op-1'' Commit = (None, ?w')"
    by (simp add: CommitOperation_def store_answer_def empty_world_def)
  from C5_journal_step [OF h] show ?thesis using h by simp
qed

subsection \<open>Cache\<close>





text \<open>
  C10: for an (entry, version) with no cache row, \<^verbatim>\<open>Evict\<close> with
  \<open>confirmed = true\<close> returns \<open>nil\<close> once the store has answered its first query,
  and changes nothing (only the store's answer is consumed).
\<close>

theorem C10_evict_absent:
  "\<not> (\<exists>r \<in> set (cache_entries w). cache_match e v r) \<Longrightarrow>
   fst (store_answer w) = None \<Longrightarrow>
     Evict w e v True = (None, snd (store_answer w))
     \<and> (store_errs w = [] \<longrightarrow> Evict w e v True = (None, w))"
proof -
  assume "\<not> (\<exists>r \<in> set (cache_entries w). cache_match e v r)"
  then have f: "find (cache_match e v) (cache_entries w) = None"
    by (simp add: find_None_iff)
  assume "fst (store_answer w) = None"
  then show ?thesis
    using f by (auto simp: Evict_def store_answer_def split: list.splits)
qed

theorem C10_evict_absent_witness:
  "Evict (empty_world\<lparr>files := [''/c/entries/1/1/data'' \<mapsto> ''hello world'']\<rparr>) 1 1 True
   = (None, empty_world\<lparr>files := [''/c/entries/1/1/data'' \<mapsto> ''hello world'']\<rparr>)"
proof -
  let ?w = "empty_world\<lparr>files := [''/c/entries/1/1/data'' \<mapsto> ''hello world'']\<rparr>"
  have a: "\<not> (\<exists>r \<in> set (cache_entries ?w). cache_match 1 1 r)"
    by (simp add: empty_world_def)
  have b: "fst (store_answer ?w) = None"
    by (simp add: empty_world_def store_answer_def)
  have c: "store_errs ?w = []"
    by (simp add: empty_world_def)
  from C10_evict_absent [OF a b]
  have "store_errs ?w = [] \<longrightarrow> Evict ?w 1 1 True = (None, ?w)"
    by (rule conjunct2)
  with c show ?thesis
    by (rule rev_mp)
qed

subsection \<open>Atomic swap\<close>

lemma fs_answer_files [simp]: "files (snd (fs_answer w)) = files w"
  by (simp add: fs_answer_def split: list.splits)

lemma Remove_files_other: "q \<noteq> p \<Longrightarrow> files (snd (Remove w p)) q = files w q"
  by (simp add: Remove_def fs_answer_def split: list.splits option.splits)

lemma copyFileAtomic_files_other:
  "q \<noteq> dst \<Longrightarrow> files (snd (copyFileAtomic w src dst)) q = files w q"
  by (simp add: copyFileAtomic_def Let_def prod.case_eq_if option.case_eq_if
      Remove_files_other)

lemma calculateFileHash_files [simp]:
  "files (snd (calculateFileHash sha w p)) = files w"
  by (simp add: calculateFileHash_def prod.case_eq_if option.case_eq_if)

lemma calculateFileHash_value:
  "files w p = Some c \<Longrightarrow>
     isl (fst (calculateFileHash sha w p)) \<or> fst (calculateFileHash sha w p) = Inr (sha c)"
  by (simp add: calculateFileHash_def prod.case_eq_if option.case_eq_if)

lemma Rename_fail_files:
  "fst (Rename w old new) = Some e \<Longrightarrow> files (snd (Rename w old new)) = files w"
  by (auto simp add: Rename_def prod.case_eq_if option.case_eq_if split: if_splits)

lemma temp_neq_real:
  "GetRealPath rootDir entry parentPath @ ''.cloudfs.tmp'' \<noteq> GetRealPath rootDir entry parentPath"
  by simp

lemma temp_neq_placeholder:
  "GetRealPath rootDir entry parentPath @ ''.cloudfs.tmp''
     \<noteq> GetPlaceholderPath rootDir entry parentPath"
  by (simp add: GetRealPath_def GetPlaceholderPath_def Join_def PlaceholderSuffix_def)

lemma AtomicSwap_failure_frame:
  assumes "fst (AtomicSwap sha rootDir w entry cachePath expectedHash parentPath) \<noteq> None"
    and "q \<noteq> GetRealPath rootDir entry parentPath @ ''.cloudfs.tmp''"
  shows "files (snd (AtomicSwap sha rootDir w entry cachePath expectedHash parentPath)) q
           = files w q"
  using assms
  by (auto simp add: AtomicSwap_def Stat_def Let_def prod.case_eq_if option.case_eq_if
      sum.case_eq_if copyFileAtomic_files_other Remove_files_other Rename_fail_files
      split: if_splits)

lemma AtomicSwap_missing:
  "files w cachePath = None \<Longrightarrow>
     AtomicSwap sha rootDir w entry cachePath expectedHash parentPath
       = (Some (Error ''cache file not found: no such file or directory''), w)"
  by (simp add: AtomicSwap_def Stat_def)

lemma AtomicSwap_mismatch:
  assumes "files w cachePath = Some content" "expectedHash \<noteq> []" "sha content \<noteq> expectedHash"
  shows "fst (AtomicSwap sha rootDir w entry cachePath expectedHash parentPath) \<noteq> None
       \<and> files (snd (AtomicSwap sha rootDir w entry cachePath expectedHash parentPath)) = files w"
  using assms calculateFileHash_value [of w cachePath content sha]
  by (auto simp add: AtomicSwap_def Stat_def Let_def prod.case_eq_if option.case_eq_if
      sum.case_eq_if)

lemma AtomicSwap_size:
  assumes "files w cachePath = Some content" "int (length content) \<noteq> ent_logical_size entry"
  shows "fst (AtomicSwap sha rootDir w entry cachePath expectedHash parentPath) \<noteq> None
       \<and> files (snd (AtomicSwap sha rootDir w entry cachePath expectedHash parentPath)) = files w"
  using assms
  by (auto simp add: AtomicSwap_def Stat_def Let_def prod.case_eq_if option.case_eq_if
      sum.case_eq_if)

text \<open>
  C2: when \<^verbatim>\<open>AtomicSwap\<close> returns an error, whatever step failed, the real path and the
  placeholder path hold what they held before (all that may differ is the temporary
  sibling of the target); a missing cache file, a fingerprint that differs from the one
  recomputed over the cache file, and a size that differs from the entry's logical size
  each make it return an error with no file changed at all.
\<close>

theorem C2_atomic_swap_failure:
  assumes "AtomicSwap sha rootDir w entry cachePath expectedHash parentPath = (res, w')"
  shows "(res \<noteq> None \<longrightarrow>
            files w' (GetRealPath rootDir entry parentPath)
              = files w (GetRealPath rootDir entry parentPath)
          \<and> files w' (GetPlaceholderPath rootDir entry parentPath)
              = files w (GetPlaceholderPath rootDir entry parentPath))
       \<and> (files w cachePath = None \<longrightarrow> res \<noteq> None \<and> w' = w)
       \<and> (\<forall>content. files w cachePath = Some content \<and> expectedHash \<noteq> []
              \<and> sha content \<noteq> expectedHash \<longrightarrow> res \<noteq> None \<and> files w' = files w)
       \<and> (\<forall>content. files w cachePath = Some content
              \<and> int (length content) \<noteq> ent_logical_size entry \<longrightarrow>
              res \<noteq> None \<and> files w' = files w)"
proof -
  have r: "res = fst (AtomicSwap sha rootDir w entry cachePath expectedHash parentPath)"
    and w': "w' = snd (AtomicSwap sha rootDir w entry cachePath expectedHash parentPath)"
    using assms by simp_all
  have a: "res \<noteq> None \<longrightarrow>
            files w' (GetRealPath rootDir entry parentPath)
              = files w (GetRealPath rootDir entry parentPath)
          \<and> files w' (GetPlaceholderPath rootDir entry parentPath)
              = files w (GetPlaceholderPath rootDir entry parentPath)"
    unfolding r w'
    using AtomicSwap_failure_frame [of sha rootDir w entry cachePath expectedHash parentPath]
      temp_neq_real [of rootDir entry parentPath]
      temp_neq_placeholder [of rootDir entry parentPath]
    by (metis (no_types))
  have b: "files w cachePath = None \<longrightarrow> res \<noteq> None \<and> w' = w"
    using assms AtomicSwap_missing [of w cachePath sha rootDir entry expectedHash parentPath]
    by auto
  have c: "\<forall>content. files w cachePath = Some content \<and> expectedHash \<noteq> []
              \<and> sha content \<noteq> expectedHash \<longrightarrow> res \<noteq> None \<and> files w' = files w"
    unfolding r w' using AtomicSwap_mismatch by blast
  have d: "\<forall>content. files w cachePath = Some content
              \<and> int (length content) \<noteq> ent_logical_size entry \<longrightarrow>
              res \<noteq> None \<and> files w' = files w"
    unfolding r w' using AtomicSwap_size by blast
  from a b c d show ?thesis by blast
qed

theorem C2_atomic_swap_failure_witness:
  "fst (AtomicSwap (\<lambda>content. ''b94d27b9'') ''/r''
          (empty_world\<lparr>files := [''/c/data'' \<mapsto> ''hello world'',
                                  ''/r/test.txt.cloudfs'' \<mapsto> ''{}'']\<rparr>)
          \<lparr>ent_id = 1, ent_parent_id = None, ent_name = ''test.txt'',
            ent_type = EntryTypeFile, ent_logical_size = 11\<rparr>
          ''/c/data'' ''correct-hash'' []) \<noteq> None
   \<and> files (snd (AtomicSwap (\<lambda>content. ''b94d27b9'') ''/r''
          (empty_world\<lparr>files := [''/c/data'' \<mapsto> ''hello world'',
                                  ''/r/test.txt.cloudfs'' \<mapsto> ''{}'']\<rparr>)
          \<lparr>ent_id = 1, ent_parent_id = None, ent_name = ''test.txt'',
            ent_type = EntryTypeFile, ent_logical_size = 11\<rparr>
          ''/c/data'' ''correct-hash'' [])) ''/r/test.txt'' = None
   \<and> files (snd (AtomicSwap (\<lambda>content. ''b94d27b9'') ''/r''
          (empty_world\<lparr>files := [''/c/data'' \<mapsto> ''hello world'',
                                  ''/r/test.txt.cloudfs'' \<mapsto> ''{}'']\<rparr>)
          \<lparr>ent_id = 1, ent_parent_id = None, ent_name = ''test.txt'',
            ent_type = EntryTypeFile, ent_logical_size = 11\<rparr>
          ''/c/data'' ''correct-hash'' [])) ''/r/test.txt.cloudfs'' = Some ''{}''"
proof -
  let ?w = "empty_world\<lparr>files := [''/c/data'' \<mapsto> ''hello world'',
                                  ''/r/test.txt.cloudfs'' \<mapsto> ''{}'']\<rparr>"
  let ?e = "\<lparr>ent_id = 1, ent_parent_id = None, ent_name = ''test.txt'',
            ent_type = EntryTypeFile, ent_logical_size = 11\<rparr>"
  let ?r = "AtomicSwap (\<lambda>content. ''b94d27b9'') ''/r'' ?w ?e ''/c/data'' ''correct-hash'' []"
  have h: "?r = (fst ?r, snd ?r)"
    by simp
  have c: "files ?w ''/c/data'' = Some ''hello world''"
    by simp
  have rp: "GetRealPath ''/r'' ?e [] = ''/r/test.txt''"
    by (simp add: GetRealPath_def Join_def)
  have pp: "GetPlaceholderPath ''/r'' ?e [] = ''/r/test.txt.cloudfs''"
    by (simp add: GetPlaceholderPath_def Join_def PlaceholderSuffix_def)
  from C2_atomic_swap_failure [OF h] c
  have "fst ?r \<noteq> None"
    by simp
  moreover from C2_atomic_swap_failure [OF h] this
  have "files (snd ?r) (GetRealPath ''/r'' ?e []) = files ?w (GetRealPath ''/r'' ?e [])
      \<and> files (snd ?r) (GetPlaceholderPath ''/r'' ?e [])
          = files ?w (GetPlaceholderPath ''/r'' ?e [])"
    by blast
  ultimately show ?thesis
    unfolding rp pp by simp
qed

subsection \<open>Hydration\<close>


text \<open>
  When the store answers, the entry is a file with an active version and its hydration
  state is \<open>hydrated\<close>, \<^verbatim>\<open>Hydrate\<close> returns success and leaves the world as it is:
  no journal entry, no call to the provider, no change to the index or to the files.
  The hydrated version id of the row is not looked at.
\<close>

lemma Hydrate_already_hydrated:
  assumes "store_errs w = []"
    and "find (\<lambda>r. ent_id r = entryID) (entries w) = Some entry"
    and "ent_type entry = EntryTypeFile"
    and "fst (GetActiveVersion w entryID) = Inr (Some version)"
    and "find (\<lambda>h. hy_entry_id h = entryID) (hydration_state w) = Some h"
    and "hy_current_state h = HydrationStateHydrated"
  shows "Hydrate sha cacheDir rootDir home registry uuid w entryID opts
         = (Inr \<lparr>hr_EntryID = entryID, hr_VersionID = ver_id version, hr_Success = True,
                  hr_Cancelled = False, hr_Error = [], hr_BytesLoaded = 0\<rparr>, w)"
  using assms
  by (simp add: Hydrate_def GetEntry_def GetActiveVersion_def getHydrationState_def
      store_answer_empty)

text \<open>
  C4 asks that the short cut be taken only when the hydrated version id is the active
  version's. At this input the entry was hydrated for version 2; version 1 is the active
  one (as after restoring a snapshot), and its content is not on the disk.
  \<^verbatim>\<open>Hydrate\<close> reports success for version 1 and does nothing.
\<close>

theorem C4_stale_hydrated_version:
  "Hydrate sha cacheDir rootDir home registry uuid
     (empty_world\<lparr>
        entries := [\<lparr>ent_id = 1, ent_parent_id = None, ent_name = ''a.txt'',
                     ent_type = EntryTypeFile, ent_logical_size = 11\<rparr>],
        versions := [\<lparr>ver_id = 1, ver_entry_id = 1, ver_version_num = 1,
                      ver_content_hash = ''h1'', ver_size = 11,
                      ver_state = VersionStateActive\<rparr>,
                     \<lparr>ver_id = 2, ver_entry_id = 1, ver_version_num = 2,
                      ver_content_hash = ''h2'', ver_size = 12,
                      ver_state = VersionStateSuperseded\<rparr>],
        placements := [\<lparr>pl_id = 1, pl_version_id = Some 1, pl_provider_id = ''p1'',
                        pl_remote_path = ''p1:/a.txt'', pl_verified_at = None,
                        pl_state = PlacementStateUploaded\<rparr>],
        hydration_state := [\<lparr>hy_entry_id = 1, hy_current_state = HydrationStateHydrated,
                             hy_hydrated_version_id = Some 2, hy_hydration_progress = 100,
                             hy_last_hydrated = Some 5\<rparr>],
        files := [''/r/a.txt'' \<mapsto> ''version two'']\<rparr>)
     1 None
   = (Inr \<lparr>hr_EntryID = 1, hr_VersionID = 1, hr_Success = True, hr_Cancelled = False,
           hr_Error = [], hr_BytesLoaded = 0\<rparr>,
      empty_world\<lparr>
        entries := [\<lparr>ent_id = 1, ent_parent_id = None, ent_name = ''a.txt'',
                     ent_type = EntryTypeFile, ent_logical_size = 11\<rparr>],
        versions := [\<lparr>ver_id = 1, ver_entry_id = 1, ver_version_num = 1,
                      ver_content_hash = ''h1'', ver_size = 11,
                      ver_state = VersionStateActive\<rparr>,
                     \<lparr>ver_id = 2, ver_entry_id = 1, ver_version_num = 2,
                      ver_content_hash = ''h2'', ver_size = 12,
                      ver_state = VersionStateSuperseded\<rparr>],
        placements := [\<lparr>pl_id = 1, pl_version_id = Some 1, pl_provider_id = ''p1'',
                        pl_remote_path = ''p1:/a.txt'', pl_verified_at = None,
                        pl_state = PlacementStateUploaded\<rparr>],
        hydration_state := [\<lparr>hy_entry_id = 1, hy_current_state = HydrationStateHydrated,
                             hy_hydrated_version_id = Some 2, hy_hydration_progress = 100,
                             hy_last_hydrated = Some 5\<rparr>],
        files := [''/r/a.txt'' \<mapsto> ''version two'']\<rparr>)"
  by (simp add: Hydrate_def GetEntry_def GetActiveVersion_def getHydrationState_def
      store_answer_def empty_world_def)

subsection \<open>Delete coordinator\<close>



lemma pl_id_degrade [simp]: "pl_id (degrade A r) = pl_id r"
  by (simp add: degrade_def)





subsection \<open>Trash\<close>

lemma store_answerD:
  "store_answer w = (a, w') \<Longrightarrow>
     versions w' = versions w \<and> trash w' = trash w \<and> trash_seq w' = trash_seq w
     \<and> clock w' = clock w \<and> entries w' = entries w \<and> placements w' = placements w
     \<and> remote_calls w' = remote_calls w \<and> files w' = files w"
  by (auto simp: store_answer_def split: list.splits)

lemma BeginOperationD:
  "BeginOperation w u t p = (r, w') \<Longrightarrow>
     versions w' = versions w \<and> trash w' = trash w \<and> trash_seq w' = trash_seq w
     \<and> clock w' = clock w \<and> entries w' = entries w \<and> placements w' = placements w
     \<and> remote_calls w' = remote_calls w \<and> files w' = files w"
  by (auto simp: BeginOperation_def store_answer_def split: list.splits option.splits if_splits)

lemma completeJournal_frame [simp]:
  "versions (completeJournal w opID) = versions w"
  "trash (completeJournal w opID) = trash w"
  "trash_seq (completeJournal w opID) = trash_seq w"
  "entries (completeJournal w opID) = entries w"
  "placements (completeJournal w opID) = placements w"
  "remote_calls (completeJournal w opID) = remote_calls w"
  "files (completeJournal w opID) = files w"
  by (simp_all add: completeJournal_def CommitOperation_def SyncOperation_def store_answer_def
      split: list.splits option.splits)

lemma MoveToTrash_success:
  assumes "MoveToTrash w uuid entryID originalPath autoPurgeDays = (None, w1)"
  shows "versions w1 =
           map (\<lambda>v. if ver_entry_id v = entryID then v\<lparr>ver_state := VersionStateDeleted\<rparr> else v)
             (versions w)
       \<and> trash_seq w1 = next_id (trash_seq w) (map tr_id (trash w))
       \<and> (\<exists>t. trash w1 = trash w @ [t] \<and> tr_id t = trash_seq w1
             \<and> tr_original_entry_id t = entryID
             \<and> tr_version_id t =
                 map_option ver_id
                   (find (\<lambda>v. ver_entry_id v = entryID \<and> ver_state v = VersionStateActive)
                      (versions w)))"
  using assms
  apply (simp add: MoveToTrash_def Let_def rollbackWith_def
      split: prod.splits sum.splits option.splits)
  apply (auto dest!: store_answerD BeginOperationD)
  done

lemma Restore_success:
  assumes "Restore w uuid trashID = (None, w2)"
  shows "\<exists>t. find (\<lambda>t. tr_id t = trashID) (trash w) = Some t
           \<and> versions w2 =
               (case tr_version_id t of
                  None \<Rightarrow> versions w
                | Some versionID \<Rightarrow>
                    map (\<lambda>v. if ver_id v = versionID then v\<lparr>ver_state := VersionStateActive\<rparr>
                              else v) (versions w))
           \<and> trash w2 = filter (\<lambda>t. tr_id t \<noteq> trashID) (trash w)"
  using assms
  apply (simp add: Restore_def Let_def rollbackWith_def
      split: prod.splits sum.splits option.splits)
  apply (auto dest!: store_answerD BeginOperationD)
  done

lemma next_id_fresh: "next_id seq ids \<notin> set ids"
proof -
  have "\<forall>i \<in> set ids. i \<le> foldr max ids seq"
    by (induction ids) auto
  then show ?thesis
    by (auto simp: next_id_def)
qed


lemma find_append_fresh:
  "\<forall>x \<in> set xs. \<not> P x \<Longrightarrow> P y \<Longrightarrow> find P (xs @ [y]) = Some y"
  by (induction xs) auto

lemma find_filter_singleton: "filter P xs = [x] \<Longrightarrow> find P xs = Some x"
  by (induction xs) (auto split: if_splits)

text \<open>
  C1 asks every purge operation to hand the placements of the entry to the delete
  coordinator before the local rows go. At this input the trashed entry 1 has one uploaded
  placement; \<^verbatim>\<open>Purge\<close> removes the trash row and the entry row, runs no remote command
  and leaves the placement row (state \<open>uploaded\<close>) behind: the delete coordinator
  would have removed or degraded it.
\<close>

theorem C1_purge_without_remote_delete:
  "(let w' = snd (Purge
       (empty_world\<lparr>
          entries := [\<lparr>ent_id = 1, ent_parent_id = None, ent_name = ''a.txt'',
                       ent_type = EntryTypeFile, ent_logical_size = 11\<rparr>],
          versions := [\<lparr>ver_id = 1, ver_entry_id = 1, ver_version_num = 1,
                        ver_content_hash = ''h1'', ver_size = 11,
                        ver_state = VersionStateDeleted\<rparr>],
          placements := [\<lparr>pl_id = 1, pl_version_id = Some 1, pl_provider_id = ''p1'',
                          pl_remote_path = ''p1:/a.txt'', pl_verified_at = None,
                          pl_state = PlacementStateUploaded\<rparr>],
          trash := [\<lparr>tr_id = 1, tr_original_entry_id = 1, tr_original_path = ''/r/a.txt'',
                     tr_deleted_at = 0, tr_version_id = Some 1,
                     tr_auto_purge_after = None\<rparr>]\<rparr>)
       ''op-1'' 1 True)
    in trash w' = [] \<and> entries w' = [] \<and> remote_calls w' = []
       \<and> placements w' = [\<lparr>pl_id = 1, pl_version_id = Some 1, pl_provider_id = ''p1'',
                             pl_remote_path = ''p1:/a.txt'', pl_verified_at = None,
                             pl_state = PlacementStateUploaded\<rparr>]
       \<and> map j_state (journal w') = [JournalStateSynced])
   \<and> fst (Purge
       (empty_world\<lparr>
          entries := [\<lparr>ent_id = 1, ent_parent_id = None, ent_name = ''a.txt'',
                       ent_type = EntryTypeFile, ent_logical_size = 11\<rparr>],
          versions := [\<lparr>ver_id = 1, ver_entry_id = 1, ver_version_num = 1,
                        ver_content_hash = ''h1'', ver_size = 11,
                        ver_state = VersionStateDeleted\<rparr>],
          placements := [\<lparr>pl_id = 1, pl_version_id = Some 1, pl_provider_id = ''p1'',
                          pl_remote_path = ''p1:/a.txt'', pl_verified_at = None,
                          pl_state = PlacementStateUploaded\<rparr>],
          trash := [\<lparr>tr_id = 1, tr_original_entry_id = 1, tr_original_path = ''/r/a.txt'',
                     tr_deleted_at = 0, tr_version_id = Some 1,
                     tr_auto_purge_after = None\<rparr>]\<rparr>)
       ''op-1'' 1 True) = None"
  by (simp add: Purge_def store_answer_def empty_world_def BeginOperation_def
      completeJournal_def CommitOperation_def SyncOperation_def Let_def)

text \<open>
  C8: for an entry with exactly one active version, when \<^verbatim>\<open>MoveToTrash\<close> succeeds
  and \<^verbatim>\<open>Restore\<close> of the trash row it inserted succeeds, the entry has the same
  active versions as before and the trash table is what it was before: the row is gone,
  and an entry that had no trash row has none.
\<close>

theorem C8_trash_roundtrip:
  assumes uniq: "filter (\<lambda>v. ver_entry_id v = entryID \<and> ver_state v = VersionStateActive)
                   (versions w) = [v0]"
    and mv: "MoveToTrash w uuid1 entryID originalPath autoPurgeDays = (None, w1)"
    and rs: "Restore w1 uuid2 (trash_seq w1) = (None, w2)"
  shows "active_versions w2 entryID = active_versions w entryID
       \<and> trash w2 = trash w
       \<and> ((\<forall>t \<in> set (trash w). tr_original_entry_id t \<noteq> entryID) \<longrightarrow>
            (\<forall>t \<in> set (trash w2). tr_original_entry_id t \<noteq> entryID))"
proof -
  let ?P = "\<lambda>v. ver_entry_id v = entryID \<and> ver_state v = VersionStateActive"
  let ?del = "\<lambda>v. if ver_entry_id v = entryID then v\<lparr>ver_state := VersionStateDeleted\<rparr> else v"
  let ?act = "\<lambda>v. if ver_id v = ver_id v0 then v\<lparr>ver_state := VersionStateActive\<rparr> else v"
  have "v0 \<in> set (filter ?P (versions w))"
    unfolding uniq by simp
  then have v0: "v0 \<in> set (versions w)" "ver_entry_id v0 = entryID"
    "ver_state v0 = VersionStateActive"
    by simp_all
  from uniq have f: "find ?P (versions w) = Some v0"
    by (rule find_filter_singleton)
  from MoveToTrash_success [OF mv] f obtain t where
    v1: "versions w1 = map ?del (versions w)"
    and s1: "trash_seq w1 = next_id (trash_seq w) (map tr_id (trash w))"
    and t1: "trash w1 = trash w @ [t]" "tr_id t = trash_seq w1" "tr_version_id t = Some (ver_id v0)"
    by auto
  have fresh: "\<forall>x \<in> set (trash w). tr_id x \<noteq> trash_seq w1"
    using next_id_fresh [of "trash_seq w" "map tr_id (trash w)"] unfolding s1
    by (metis image_eqI list.set_map)
  then have ft: "find (\<lambda>t. tr_id t = trash_seq w1) (trash w1) = Some t"
    unfolding t1(1) using t1(2) by (intro find_append_fresh) auto
  from Restore_success [OF rs] ft t1(3) have
    v2: "versions w2 = map ?act (versions w1)"
    and t2: "trash w2 = filter (\<lambda>t. tr_id t \<noteq> trash_seq w1) (trash w1)"
    by auto
  have tr: "trash w2 = trash w"
    unfolding t2 t1(1) using fresh t1(2) by (simp add: filter_id_conv)
  have "active_versions w entryID = {ver_id v0}"
    by (simp add: active_versions_def uniq)
  moreover have "active_versions w2 entryID = {ver_id v0}"
    unfolding active_versions_def v2 v1 using v0 by (auto simp: image_iff) force+
  ultimately show ?thesis
    using tr by simp
qed

theorem C8_trash_roundtrip_witness:
  "active_versions
     (snd (Restore
        (snd (MoveToTrash
           (empty_world\<lparr>
              entries := [\<lparr>ent_id = 1, ent_parent_id = None, ent_name = ''a.txt'',
                           ent_type = EntryTypeFile, ent_logical_size = 11\<rparr>],
              versions := [\<lparr>ver_id = 1, ver_entry_id = 1, ver_version_num = 1,
                            ver_content_hash = ''h1'', ver_size = 11,
                            ver_state = VersionStateSuperseded\<rparr>,
                           \<lparr>ver_id = 2, ver_entry_id = 1, ver_version_num = 2,
                            ver_content_hash = ''h2'', ver_size = 12,
                            ver_state = VersionStateActive\<rparr>]\<rparr>)
           ''op-1'' 1 ''/r/a.txt'' 30))
        ''op-2'' 1)) 1 = {2}
   \<and> trash
     (snd (Restore
        (snd (MoveToTrash
           (empty_world\<lparr>
              entries := [\<lparr>ent_id = 1, ent_parent_id = None, ent_name = ''a.txt'',
                           ent_type = EntryTypeFile, ent_logical_size = 11\<rparr>],
              versions := [\<lparr>ver_id = 1, ver_entry_id = 1, ver_version_num = 1,
                            ver_content_hash = ''h1'', ver_size = 11,
                            ver_state = VersionStateSuperseded\<rparr>,
                           \<lparr>ver_id = 2, ver_entry_id = 1, ver_version_num = 2,
                            ver_content_hash = ''h2'', ver_size = 12,
                            ver_state = VersionStateActive\<rparr>]\<rparr>)
           ''op-1'' 1 ''/r/a.txt'' 30))
        ''op-2'' 1)) = []"
proof -
  let ?v2 = "\<lparr>ver_id = 2, ver_entry_id = 1, ver_version_num = 2,
                            ver_content_hash = ''h2'', ver_size = 12,
                            ver_state = VersionStateActive\<rparr>"
  let ?w = "empty_world\<lparr>
              entries := [\<lparr>ent_id = 1, ent_parent_id = None, ent_name = ''a.txt'',
                           ent_type = EntryTypeFile, ent_logical_size = 11\<rparr>],
              versions := [\<lparr>ver_id = 1, ver_entry_id = 1, ver_version_num = 1,
                            ver_content_hash = ''h1'', ver_size = 11,
                            ver_state = VersionStateSuperseded\<rparr>, ?v2]\<rparr>"
  let ?m = "MoveToTrash ?w ''op-1'' 1 ''/r/a.txt'' 30"
  let ?r = "Restore (snd ?m) ''op-2'' 1"
  have u: "filter (\<lambda>v. ver_entry_id v = 1 \<and> ver_state v = VersionStateActive) (versions ?w)
             = [?v2]"
    by (simp add: empty_world_def)
  have q: "trash_seq (snd ?m) = 1"
    by (simp add: MoveToTrash_def store_answer_def empty_world_def BeginOperation_def
        completeJournal_def CommitOperation_def SyncOperation_def Let_def next_id_def)
  have mv: "?m = (None, snd ?m)"
    by (simp add: prod_eq_iff MoveToTrash_def store_answer_def empty_world_def
        BeginOperation_def Let_def)
  have "fst ?r = None"
    by (simp add: Restore_def MoveToTrash_def store_answer_def empty_world_def
        BeginOperation_def completeJournal_def CommitOperation_def SyncOperation_def Let_def
        next_id_def)
  then have rs: "Restore (snd ?m) ''op-2'' (trash_seq (snd ?m)) = (None, snd ?r)"
    unfolding q by (simp add: prod_eq_iff)
  have a: "active_versions ?w 1 = {2}"
    by (simp add: active_versions_def empty_world_def)
  have t: "trash ?w = []"
    by (simp add: empty_world_def)
  from C8_trash_roundtrip [OF u mv rs] a t show ?thesis
    by simp
qed

subsection \<open>Placement planner\<close>












end
